theory Spec2Isabelle
  imports Main
begin

section \<open>Keys, errors and the store of lists\<close>

text \<open>
  The model follows \<^verbatim>\<open>aiohttp/multidict.py\<close>. Keys are text strings (the
  case-insensitive classes call \<^verbatim>\<open>key.upper()\<close> on them); values are opaque.
  A key is its text in UTF-8, one \<open>char\<close> per byte: two Python strings are equal exactly
  when their encodings are.

  \<^verbatim>\<open>str.upper\<close> and \<^verbatim>\<open>str.lower\<close> are Python built-ins, not code of this module.
  They are modelled where the results below need them: on the ASCII letters, which they
  exchange, and for \<^verbatim>\<open>lower\<close> on U+212A KELVIN SIGN, which Python lowers to the ASCII
  letter k and leaves alone when upper-casing. All other text is kept as it is, which is
  less than Python does; the proofs use of it only that \<^verbatim>\<open>upper\<close> is idempotent, as
  \<^verbatim>\<open>str.upper\<close> is.
\<close>

type_synonym key = string

datatype error =
  TypeError | ValueError | KeyError | AttributeError | IndexError | NotImplementedError

definition upper_char :: "char \<Rightarrow> char" where
  "upper_char c =
     (let n = (of_char c :: nat) in if 97 \<le> n \<and> n \<le> 122 then char_of (n - 32) else c)"

definition lower_char :: "char \<Rightarrow> char" where
  "lower_char c =
     (let n = (of_char c :: nat) in if 65 \<le> n \<and> n \<le> 90 then char_of (n + 32) else c)"

definition upper :: "key \<Rightarrow> key" where
  "upper k = map upper_char k"

text \<open>The UTF-8 bytes of U+212A KELVIN SIGN.\<close>

definition kelvin_sign :: key where
  "kelvin_sign = [CHR 0xE2, CHR 0x84, CHR 0xAA]"

fun lower :: "key \<Rightarrow> key" where
  "lower (a # b # c # cs) =
     (if [a, b, c] = kelvin_sign then CHR ''k'' # lower cs
      else lower_char a # lower (b # c # cs))"
| "lower (a # cs) = lower_char a # lower cs"
| "lower [] = []"

text \<open>\<^verbatim>\<open>str.isascii\<close>: every character is below 128.\<close>

definition isascii :: "key \<Rightarrow> bool" where
  "isascii k = list_all (\<lambda>c. (of_char c :: nat) < 128) k"

text \<open>
  A Python list is a mutable object that several owners may hold: a map holds its
  \<^verbatim>\<open>_items\<close> list, and a view holds the list it was given. The store maps the address
  of every list to its current contents; \<open>next_addr\<close> is the next unused address.
\<close>

type_synonym addr = nat

type_synonym 'v entries = "(key \<times> 'v) list"

record 'v heap =
  cells :: "addr \<Rightarrow> 'v entries"
  next_addr :: addr

definition empty_heap :: "'v heap" where
  "empty_heap = \<lparr>cells = (\<lambda>a. []), next_addr = 0\<rparr>"

definition alloc :: "'v heap \<Rightarrow> 'v entries \<Rightarrow> addr \<times> 'v heap" where
  "alloc h xs =
     (next_addr h, h\<lparr>cells := (cells h)(next_addr h := xs), next_addr := Suc (next_addr h)\<rparr>)"

definition store :: "'v heap \<Rightarrow> addr \<Rightarrow> 'v entries \<Rightarrow> 'v heap" where
  "store h a xs = h\<lparr>cells := (cells h)(a := xs)\<rparr>"

text \<open>\<^verbatim>\<open>lst.append(item)\<close> on the list at address \<open>a\<close>.\<close>

definition append_item :: "'v heap \<Rightarrow> addr \<Rightarrow> key \<times> 'v \<Rightarrow> 'v heap" where
  "append_item h a item = store h a (cells h a @ [item])"

section \<open>The four classes\<close>

datatype klass =
  MultiDict | CaseInsensitiveMultiDict | MutableMultiDict | CaseInsensitiveMutableMultiDict

fun folds :: "klass \<Rightarrow> bool" where
  "folds MultiDict = False"
| "folds CaseInsensitiveMultiDict = True"
| "folds MutableMultiDict = False"
| "folds CaseInsensitiveMutableMultiDict = True"

fun mutable :: "klass \<Rightarrow> bool" where
  "mutable MultiDict = False"
| "mutable CaseInsensitiveMultiDict = False"
| "mutable MutableMultiDict = True"
| "mutable CaseInsensitiveMutableMultiDict = True"

text \<open>An instance: its class and the address of its \<^verbatim>\<open>_items\<close> list.\<close>

record mdict =
  cls :: klass
  d_items :: addr

section \<open>Construction\<close>

text \<open>
  An item of an input sequence is a Python tuple: empty, or a key followed by any number
  of values. \<^verbatim>\<open>(k, v)\<close> is \<open>Tuple k [v]\<close>, \<^verbatim>\<open>(k,)\<close> is \<open>Tuple k []\<close>.
\<close>

datatype 'v pytuple = Unit | Tuple key "'v list"

fun tuple_len :: "'v pytuple \<Rightarrow> nat" where
  "tuple_len Unit = 0"
| "tuple_len (Tuple k vs) = Suc (length vs)"

text \<open>\<^verbatim>\<open>key, value = item\<close>: unpacking raises ValueError unless the tuple has two parts.\<close>

fun unpack2 :: "'v pytuple \<Rightarrow> error + key \<times> 'v" where
  "unpack2 (Tuple k [v]) = Inr (k, v)"
| "unpack2 t = Inl ValueError"

fun unpack_all :: "'v pytuple list \<Rightarrow> error + 'v entries" where
  "unpack_all [] = Inr []"
| "unpack_all (t # ts) =
     (case unpack2 t of
        Inl e \<Rightarrow> Inl e
      | Inr p \<Rightarrow> (case unpack_all ts of Inl e \<Rightarrow> Inl e | Inr ps \<Rightarrow> Inr (p # ps)))"

definition to_tuple :: "key \<times> 'v \<Rightarrow> 'v pytuple" where
  "to_tuple p = Tuple (fst p) [snd p]"

text \<open>
  The positional argument of \<^verbatim>\<open>__init__\<close> and \<^verbatim>\<open>extend\<close>: an object with an
  \<^verbatim>\<open>items\<close> method (a dict or a map of this module), given by the pairs that method
  yields, or any other iterable, given by the tuples it yields.
\<close>

datatype 'v posarg = WithItems "'v entries" | Iterable "'v pytuple list"

text \<open>The loop of \<^verbatim>\<open>__init__\<close> that raises TypeError at an item whose length is not 2.\<close>

fun check_len2 :: "'v pytuple list \<Rightarrow> error + unit" where
  "check_len2 [] = Inr ()"
| "check_len2 (arg # args) = (if \<not> tuple_len arg = 2 then Inl TypeError else check_len2 args)"

text \<open>\<^verbatim>\<open>_CaseInsensitiveMultiDict._fill\<close>: append each pair under its upper-cased key.\<close>

fun ci_fill :: "'v heap \<Rightarrow> addr \<Rightarrow> 'v entries \<Rightarrow> 'v heap" where
  "ci_fill h a [] = h"
| "ci_fill h a (p # ipairs) = ci_fill (append_item h a (upper (fst p), snd p)) a ipairs"

text \<open>\<^verbatim>\<open>_fill\<close>, by the class of the instance; the base class extends the list.\<close>

definition fill :: "'v heap \<Rightarrow> klass \<Rightarrow> addr \<Rightarrow> 'v entries \<Rightarrow> 'v heap" where
  "fill h c a ipairs = (if folds c then ci_fill h a ipairs else store h a (cells h a @ ipairs))"

text \<open>
  \<^verbatim>\<open>_MultiDict.__init__(*args, **kwargs)\<close>. The tuples of a checked sequence are stored
  as the pairs every later \<^verbatim>\<open>for k, v in self._items\<close> reads them as.
\<close>

definition init ::
  "'v heap \<Rightarrow> klass \<Rightarrow> 'v posarg list \<Rightarrow> 'v entries \<Rightarrow> (error + mdict) \<times> 'v heap" where
  "init h c args kwargs =
     (if length args > 1 then (Inl TypeError, h)
      else
        (case alloc h [] of (a, h1) \<Rightarrow>
          (case
             (case args of
                [] \<Rightarrow> Inr []
              | WithItems its # rest \<Rightarrow> Inr its
              | Iterable seq # rest \<Rightarrow>
                  (case check_len2 seq of Inl e \<Rightarrow> Inl e | Inr u \<Rightarrow> unpack_all seq))
           of
             Inl e \<Rightarrow> (Inl e, h1)
           | Inr pairs \<Rightarrow> (Inr \<lparr>cls = c, d_items = a\<rparr>, fill h1 c a (pairs @ kwargs)))))"

section \<open>Lookups\<close>

text \<open>The loop \<^verbatim>\<open>for k, v in self._items: if k == key: return v\<close>.\<close>

fun first_value :: "'v entries \<Rightarrow> key \<Rightarrow> 'v option" where
  "first_value [] key = None"
| "first_value (p # ps) key = (if fst p = key then Some (snd p) else first_value ps key)"

text \<open>
  \<^verbatim>\<open>default=_marker\<close> is \<open>None\<close> when the caller gave no default. \<^verbatim>\<open>getall\<close> returns
  the list of values (\<open>Inl\<close>) or the default object as it was given (\<open>Inr\<close>).
\<close>

definition base_getall :: "'v entries \<Rightarrow> key \<Rightarrow> 'd option \<Rightarrow> error + ('v list + 'd)" where
  "base_getall its key dflt =
     (let res = map snd (filter (\<lambda>p. fst p = key) its)
      in if res \<noteq> [] then Inr (Inl res)
         else (case dflt of Some d \<Rightarrow> Inr (Inr d) | None \<Rightarrow> Inl KeyError))"

definition base_getone :: "'v entries \<Rightarrow> key \<Rightarrow> 'v option \<Rightarrow> error + 'v" where
  "base_getone its key dflt =
     (case first_value its key of
        Some v \<Rightarrow> Inr v
      | None \<Rightarrow> (case dflt of Some d \<Rightarrow> Inr d | None \<Rightarrow> Inl KeyError))"

definition lookup_key :: "klass \<Rightarrow> key \<Rightarrow> key" where
  "lookup_key c key = (if folds c then upper key else key)"

definition getall :: "'v heap \<Rightarrow> mdict \<Rightarrow> key \<Rightarrow> 'd option \<Rightarrow> error + ('v list + 'd)" where
  "getall h m key dflt = base_getall (cells h (d_items m)) (lookup_key (cls m) key) dflt"

definition getone :: "'v heap \<Rightarrow> mdict \<Rightarrow> key \<Rightarrow> 'v option \<Rightarrow> error + 'v" where
  "getone h m key dflt = base_getone (cells h (d_items m)) (lookup_key (cls m) key) dflt"

definition dunder_getitem :: "'v heap \<Rightarrow> mdict \<Rightarrow> key \<Rightarrow> error + 'v" where
  "dunder_getitem h m key =
     (case first_value (cells h (d_items m)) (lookup_key (cls m) key) of
        Some v \<Rightarrow> Inr v
      | None \<Rightarrow> Inl KeyError)"

definition get :: "'v heap \<Rightarrow> mdict \<Rightarrow> key \<Rightarrow> 'v \<Rightarrow> 'v" where
  "get h m key dflt =
     (case first_value (cells h (d_items m)) (lookup_key (cls m) key) of
        Some v \<Rightarrow> v
      | None \<Rightarrow> dflt)"

definition dunder_contains :: "'v heap \<Rightarrow> mdict \<Rightarrow> key \<Rightarrow> bool" where
  "dunder_contains h m key =
     (case first_value (cells h (d_items m)) (lookup_key (cls m) key) of
        Some v \<Rightarrow> True
      | None \<Rightarrow> False)"

definition dunder_len :: "'v heap \<Rightarrow> mdict \<Rightarrow> nat" where
  "dunder_len h m = length (cells h (d_items m))"

section \<open>Views\<close>

text \<open>
  \<^verbatim>\<open>_ViewBase\<close>: \<^verbatim>\<open>_keys\<close> is a list built by the constructor and held by nobody
  else, so the view holds its contents; \<^verbatim>\<open>_items\<close> is a reference: with
  \<^verbatim>\<open>getall=True\<close> it is the very list the constructor was given
  (\<^verbatim>\<open>items_to_use = items\<close>), otherwise a new list.
\<close>

record view =
  v_keys :: "key list"
  v_items :: addr

text \<open>The loop of the \<^verbatim>\<open>getall=False\<close> branch: the set of keys seen, \<^verbatim>\<open>_keys\<close>, \<^verbatim>\<open>items_to_use\<close>.\<close>

fun first_only :: "'v entries \<Rightarrow> key set \<Rightarrow> key list \<Rightarrow> 'v entries \<Rightarrow> key list \<times> 'v entries" where
  "first_only [] keys ks items_to_use = (ks, items_to_use)"
| "first_only (i # rest) keys ks items_to_use =
     (if fst i \<in> keys then first_only rest keys ks items_to_use
      else first_only rest (insert (fst i) keys) (ks @ [fst i]) (items_to_use @ [i]))"

definition ViewBase_init :: "'v heap \<Rightarrow> addr \<Rightarrow> bool \<Rightarrow> view \<times> 'v heap" where
  "ViewBase_init h a getall_flag =
     (if getall_flag then (\<lparr>v_keys = map fst (cells h a), v_items = a\<rparr>, h)
      else
        (case first_only (cells h a) {} [] [] of (ks, items_to_use) \<Rightarrow>
          (case alloc h items_to_use of (a', h') \<Rightarrow> (\<lparr>v_keys = ks, v_items = a'\<rparr>, h'))))"

definition keys :: "'v heap \<Rightarrow> mdict \<Rightarrow> bool \<Rightarrow> view \<times> 'v heap" where
  "keys h m getall_flag = ViewBase_init h (d_items m) getall_flag"

definition items :: "'v heap \<Rightarrow> mdict \<Rightarrow> bool \<Rightarrow> view \<times> 'v heap" where
  "items h m getall_flag = ViewBase_init h (d_items m) getall_flag"

definition values_view :: "'v heap \<Rightarrow> mdict \<Rightarrow> bool \<Rightarrow> view \<times> 'v heap" where
  "values_view h m getall_flag = ViewBase_init h (d_items m) getall_flag"

definition view_len :: "'v heap \<Rightarrow> view \<Rightarrow> nat" where
  "view_len h v = length (cells h (v_items v))"

definition KeysView_iter :: "view \<Rightarrow> key list" where
  "KeysView_iter v = v_keys v"

definition KeysView_contains :: "view \<Rightarrow> key \<Rightarrow> bool" where
  "KeysView_contains v key = (key \<in> set (v_keys v))"

definition ItemsView_iter :: "'v heap \<Rightarrow> view \<Rightarrow> 'v entries" where
  "ItemsView_iter h v = cells h (v_items v)"

definition ItemsView_contains :: "'v heap \<Rightarrow> view \<Rightarrow> key \<times> 'v \<Rightarrow> bool" where
  "ItemsView_contains h v item = (item \<in> set (cells h (v_items v)))"

definition ValuesView_iter :: "'v heap \<Rightarrow> view \<Rightarrow> 'v list" where
  "ValuesView_iter h v = map snd (cells h (v_items v))"

fun values_scan :: "'v entries \<Rightarrow> 'v \<Rightarrow> bool" where
  "values_scan [] x = False"
| "values_scan (item # rest) x = (if snd item = x then True else values_scan rest x)"

definition ValuesView_contains :: "'v heap \<Rightarrow> view \<Rightarrow> 'v \<Rightarrow> bool" where
  "ValuesView_contains h v x = values_scan (cells h (v_items v)) x"

text \<open>\<^verbatim>\<open>__iter__\<close> is \<^verbatim>\<open>iter(self.keys())\<close>: the keys view with the default \<^verbatim>\<open>getall=True\<close>.\<close>

definition dunder_iter :: "'v heap \<Rightarrow> mdict \<Rightarrow> key list" where
  "dunder_iter h m = KeysView_iter (fst (keys h m True))"

section \<open>Equality and copy\<close>

text \<open>
  The right operand of \<^verbatim>\<open>==\<close>: not a Mapping, a map of this module, or another Mapping,
  given by its \<^verbatim>\<open>get\<close> (\<open>None\<close> where \<^verbatim>\<open>get(k, _marker)\<close> returns the marker).
\<close>

datatype 'v operand = NotMapping | Family mdict | Mapping "key \<Rightarrow> 'v option"

datatype eq_result = NotImplemented | Result bool

text \<open>
  \<^verbatim>\<open>other.get(key, default)\<close> of such a mapping; \<^verbatim>\<open>other.get(key)\<close> is the call with
  the default \<^verbatim>\<open>None\<close>.
\<close>

definition dict_get :: "(key \<Rightarrow> 'v option) \<Rightarrow> key \<Rightarrow> 'v \<Rightarrow> 'v" where
  "dict_get other_get key dflt = (case other_get key of Some v \<Rightarrow> v | None \<Rightarrow> dflt)"

text \<open>
  The loop of \<^verbatim>\<open>__eq__\<close>: \<^verbatim>\<open>nv = other.get(k, _marker)\<close> is the marker, which equals
  no value, exactly when \<open>other\<close> has no entry for the key.
\<close>

fun eq_loop :: "'v entries \<Rightarrow> (key \<Rightarrow> 'v option) \<Rightarrow> bool" where
  "eq_loop [] other_get = True"
| "eq_loop (p # ps) other_get =
     (if Some (snd p) \<noteq> other_get (fst p) then False else eq_loop ps other_get)"

definition dunder_eq :: "'v heap \<Rightarrow> mdict \<Rightarrow> 'v operand \<Rightarrow> eq_result" where
  "dunder_eq h m other =
     (case other of
        NotMapping \<Rightarrow> NotImplemented
      | Family m' \<Rightarrow> Result (cells h (d_items m) = cells h (d_items m'))
      | Mapping other_get \<Rightarrow>
          (case items h m True of (v, h1) \<Rightarrow> Result (eq_loop (ItemsView_iter h1 v) other_get)))"

text \<open>
  \<^verbatim>\<open>copy\<close> is \<^verbatim>\<open>cls(self.items())\<close>. An items view has no \<^verbatim>\<open>items\<close> attribute, so
  the constructor iterates it: it is the iterable of the view's pairs.
\<close>

definition copy :: "'v heap \<Rightarrow> mdict \<Rightarrow> (error + mdict) \<times> 'v heap" where
  "copy h m =
     (case items h m True of (v, h1) \<Rightarrow>
        init h1 (cls m) [Iterable (map to_tuple (ItemsView_iter h1 v))] [])"

section \<open>The mutable classes\<close>

text \<open>
  The methods of \<^verbatim>\<open>MutableMultiDictMixin\<close> are \<open>mixin_\<close> functions; the function
  without the prefix is the call on an instance, resolved by its class: the mixin's method
  for \<^verbatim>\<open>_MutableMultiDict\<close>, the override (where there is one) for
  \<^verbatim>\<open>_CaseInsensitiveMutableMultiDict\<close>, and AttributeError for the read-only classes,
  which have no such method.
\<close>

definition mixin_add :: "'v heap \<Rightarrow> mdict \<Rightarrow> key \<Rightarrow> 'v \<Rightarrow> 'v heap" where
  "mixin_add h m key val = append_item h (d_items m) (key, val)"

definition add :: "'v heap \<Rightarrow> mdict \<Rightarrow> key \<Rightarrow> 'v \<Rightarrow> (error + unit) \<times> 'v heap" where
  "add h m key val =
     (case cls m of
        MutableMultiDict \<Rightarrow> (Inr (), mixin_add h m key val)
      | CaseInsensitiveMutableMultiDict \<Rightarrow> (Inr (), mixin_add h m (upper key) val)
      | c \<Rightarrow> (Inl AttributeError, h))"

text \<open>The loop of \<^verbatim>\<open>extend\<close>: \<^verbatim>\<open>for key, value in ...: self.add(key, value)\<close>.\<close>

fun extend_loop :: "'v heap \<Rightarrow> mdict \<Rightarrow> 'v pytuple list \<Rightarrow> (error + unit) \<times> 'v heap" where
  "extend_loop h m [] = (Inr (), h)"
| "extend_loop h m (t # ts) =
     (case unpack2 t of
        Inl e \<Rightarrow> (Inl e, h)
      | Inr p \<Rightarrow>
          (case add h m (fst p) (snd p) of
             (Inl e, h1) \<Rightarrow> (Inl e, h1)
           | (Inr u, h1) \<Rightarrow> extend_loop h1 m ts))"

text \<open>
  \<^verbatim>\<open>extend(*args, **kwargs)\<close>. The argument is given by what it yields, so it is an
  object other than the map being extended.
\<close>

definition extend ::
  "'v heap \<Rightarrow> mdict \<Rightarrow> 'v posarg list \<Rightarrow> 'v entries \<Rightarrow> (error + unit) \<times> 'v heap" where
  "extend h m args kwargs =
     (if \<not> mutable (cls m) then (Inl AttributeError, h)
      else if length args > 1 then (Inl TypeError, h)
      else
        extend_loop h m
          ((case args of
              [] \<Rightarrow> []
            | WithItems its # rest \<Rightarrow> map to_tuple its
            | Iterable seq # rest \<Rightarrow> seq)
           @ map to_tuple kwargs))"

definition clear :: "'v heap \<Rightarrow> mdict \<Rightarrow> (error + unit) \<times> 'v heap" where
  "clear h m =
     (if \<not> mutable (cls m) then (Inl AttributeError, h) else (Inr (), store h (d_items m) []))"

text \<open>\<^verbatim>\<open>del items[i]\<close>.\<close>

definition del_at :: "nat \<Rightarrow> 'a list \<Rightarrow> 'a list" where
  "del_at i xs = take i xs @ drop (Suc i) xs"

text \<open>
  The loop of \<^verbatim>\<open>__delitem__\<close>, \<^verbatim>\<open>for i in range(len(items) - 1, -1, -1)\<close>: the first
  argument is the number of indices still to visit, so the index visited is one less.
  \<^verbatim>\<open>items[i]\<close> raises IndexError out of range.
\<close>

fun del_loop :: "key \<Rightarrow> nat \<Rightarrow> 'v entries \<Rightarrow> bool \<Rightarrow> error + 'v entries \<times> bool" where
  "del_loop key 0 its found = Inr (its, found)"
| "del_loop key (Suc i) its found =
     (if \<not> i < length its then Inl IndexError
      else if fst (its ! i) = key then del_loop key i (del_at i its) True
      else del_loop key i its found)"

definition mixin_delitem :: "'v heap \<Rightarrow> mdict \<Rightarrow> key \<Rightarrow> (error + unit) \<times> 'v heap" where
  "mixin_delitem h m key =
     (case del_loop key (length (cells h (d_items m))) (cells h (d_items m)) False of
        Inl e \<Rightarrow> (Inl e, h)
      | Inr r \<Rightarrow>
          (if \<not> snd r then (Inl KeyError, store h (d_items m) (fst r))
           else (Inr (), store h (d_items m) (fst r))))"

definition dunder_delitem :: "'v heap \<Rightarrow> mdict \<Rightarrow> key \<Rightarrow> (error + unit) \<times> 'v heap" where
  "dunder_delitem h m key =
     (case cls m of
        MutableMultiDict \<Rightarrow> mixin_delitem h m key
      | CaseInsensitiveMutableMultiDict \<Rightarrow> mixin_delitem h m (upper key)
      | c \<Rightarrow> (Inl AttributeError, h))"

text \<open>
  \<^verbatim>\<open>__setitem__\<close> of the mixin: \<^verbatim>\<open>del self[key]\<close> is a call on the instance, KeyError
  is swallowed, any other error propagates.
\<close>

definition mixin_setitem :: "'v heap \<Rightarrow> mdict \<Rightarrow> key \<Rightarrow> 'v \<Rightarrow> (error + unit) \<times> 'v heap" where
  "mixin_setitem h m key val =
     (case dunder_delitem h m key of
        (Inl e, h1) \<Rightarrow>
          (if e = KeyError then (Inr (), append_item h1 (d_items m) (key, val))
           else (Inl e, h1))
      | (Inr u, h1) \<Rightarrow> (Inr (), append_item h1 (d_items m) (key, val)))"

definition dunder_setitem :: "'v heap \<Rightarrow> mdict \<Rightarrow> key \<Rightarrow> 'v \<Rightarrow> (error + unit) \<times> 'v heap" where
  "dunder_setitem h m key val =
     (case cls m of
        MutableMultiDict \<Rightarrow> mixin_setitem h m key val
      | CaseInsensitiveMutableMultiDict \<Rightarrow> mixin_setitem h m (upper key) val
      | c \<Rightarrow> (Inl AttributeError, h))"

text \<open>\<^verbatim>\<open>setdefault\<close> of the mixin; neither mutable class overrides it.\<close>

definition setdefault :: "'v heap \<Rightarrow> mdict \<Rightarrow> key \<Rightarrow> 'v \<Rightarrow> (error + 'v) \<times> 'v heap" where
  "setdefault h m key dflt =
     (if \<not> mutable (cls m) then (Inl AttributeError, h)
      else
        (case first_value (cells h (d_items m)) key of
           Some v \<Rightarrow> (Inr v, h)
         | None \<Rightarrow> (Inr dflt, append_item h (d_items m) (key, dflt))))"

definition pop :: "'v heap \<Rightarrow> mdict \<Rightarrow> key \<Rightarrow> (error + 'v) \<times> 'v heap" where
  "pop h m key = (if \<not> mutable (cls m) then (Inl AttributeError, h) else (Inl NotImplementedError, h))"

definition popitem :: "'v heap \<Rightarrow> mdict \<Rightarrow> (error + key \<times> 'v) \<times> 'v heap" where
  "popitem h m = (if \<not> mutable (cls m) then (Inl AttributeError, h) else (Inl NotImplementedError, h))"

definition update :: "'v heap \<Rightarrow> mdict \<Rightarrow> 'v posarg list \<Rightarrow> (error + unit) \<times> 'v heap" where
  "update h m args = (if \<not> mutable (cls m) then (Inl AttributeError, h) else (Inl NotImplementedError, h))"

text \<open>
  The entries a map's lookups cannot tell from those of \<open>key\<close>, and the rest, in order.
\<close>

definition others :: "key \<Rightarrow> 'v entries \<Rightarrow> 'v entries" where
  "others key its = filter (\<lambda>p. fst p \<noteq> key) its"

text \<open>The invariant of a case-insensitive map: every stored key is its own upper-case form.\<close>

definition all_upper :: "'v entries \<Rightarrow> bool" where
  "all_upper its = list_all (\<lambda>p. upper (fst p) = fst p) its"

section \<open>Auxiliary facts\<close>

lemmas run_defs = init_def alloc_def store_def append_item_def fill_def empty_heap_def
  items_def keys_def values_view_def ViewBase_init_def view_len_def ItemsView_iter_def
  KeysView_iter_def ValuesView_iter_def add_def mixin_add_def extend_def setdefault_def
  dunder_iter_def dunder_len_def dunder_eq_def to_tuple_def

subsection \<open>Case folding\<close>

lemma upper_char_idem: "upper_char (upper_char c) = upper_char c"
  by (auto simp: upper_char_def Let_def)

lemma upper_lower_char: "upper_char (lower_char c) = upper_char c"
  by (auto simp: upper_char_def lower_char_def Let_def)

lemma lower_ascii: "isascii k \<Longrightarrow> lower k = map lower_char k"
  by (induction k rule: lower.induct) (auto simp: isascii_def kelvin_sign_def)

lemma upper_idem: "upper (upper k) = upper k"
  by (simp add: upper_def upper_char_idem)

lemma upper_lower_ascii: "isascii k \<Longrightarrow> upper (lower k) = upper k"
  by (simp add: lower_ascii upper_def upper_lower_char)

lemma upper_kelvin: "upper kelvin_sign = kelvin_sign"
  by code_simp

lemma lower_kelvin: "lower kelvin_sign = ''k''"
  by code_simp

lemma upper_k: "upper ''k'' = ''K''"
  by code_simp

lemma kelvin_not_K: "kelvin_sign \<noteq> ''K''"
  by code_simp

lemma isascii_content_type: "isascii ''Content-Type''"
  by code_simp

lemma lookup_key_idem: "lookup_key c (lookup_key c k) = lookup_key c k"
  by (simp add: lookup_key_def upper_idem)

lemma upper_foo: "upper ''foo'' = ''FOO''"
  by code_simp

lemma upper_content_type: "upper ''Content-Type'' = ''CONTENT-TYPE''"
  by code_simp

lemma lower_content_type: "lower ''Content-Type'' = ''content-type''"
  by code_simp

lemma upper_content_type_lower: "upper ''content-type'' = ''CONTENT-TYPE''"
  by code_simp

subsection \<open>The store\<close>

lemma store_same: "store h a (cells h a) = h"
  by (simp add: store_def)

lemma store_store: "store (store h a xs) a ys = store h a ys"
  by (simp add: store_def)

lemma cells_store: "cells (store h a xs) b = (if b = a then xs else cells h b)"
  by (simp add: store_def)

lemma ci_fill_cells:
  "cells (ci_fill h a ps) = (cells h)(a := cells h a @ map (\<lambda>p. (upper (fst p), snd p)) ps)"
  by (induction ps arbitrary: h) (simp_all add: append_item_def store_def)

lemma ci_fill_next: "next_addr (ci_fill h a ps) = next_addr h"
  by (induction ps arbitrary: h) (simp_all add: append_item_def store_def)

subsection \<open>Tuples made from pairs pass the constructor's check\<close>

lemma check_len2_to_tuple: "check_len2 (map to_tuple xs) = Inr ()"
  by (induction xs) (simp_all add: to_tuple_def)

lemma unpack_all_to_tuple: "unpack_all (map to_tuple xs) = Inr xs"
  by (induction xs) (simp_all add: to_tuple_def)

subsection \<open>The deletion loop\<close>

lemma del_at_take: "n \<le> length xs \<Longrightarrow> take n (del_at n xs) = take n xs"
  by (simp add: del_at_def)

lemma del_at_drop: "n < length xs \<Longrightarrow> drop n (del_at n xs) = drop (Suc n) xs"
  by (simp add: del_at_def)

text \<open>
  After the indices below \<open>n\<close> have been visited, the entries of \<open>key\<close> among the first
  \<open>n\<close> are gone, the others stand in their order, and no index was out of range.
\<close>

lemma del_loop_filter:
  "n \<le> length its \<Longrightarrow>
   del_loop key n its found =
     Inr (others key (take n its) @ drop n its, found \<or> key \<in> fst ` set (take n its))"
proof (induction n arbitrary: its found)
  case 0
  then show ?case by (simp add: others_def)
next
  case (Suc n)
  then have lt: "n < length its" by simp
  have tk: "take (Suc n) its = take n its @ [its ! n]"
    using lt by (simp add: take_Suc_conv_app_nth)
  show ?case
  proof (cases "fst (its ! n) = key")
    case True
    have len: "n \<le> length (del_at n its)" using lt by (simp add: del_at_def)
    show ?thesis
      using True lt Suc.IH [OF len, of True]
      by (simp add: tk del_at_take del_at_drop others_def)
  next
    case False
    have len: "n \<le> length its" using lt by simp
    show ?thesis
      using False lt Suc.IH [OF len, of found]
      by (auto simp add: tk others_def Cons_nth_drop_Suc)
  qed
qed

lemma del_loop_all:
  "del_loop key (length its) its False = Inr (others key its, key \<in> fst ` set its)"
  using del_loop_filter [of "length its" its key False] by simp

lemma others_none: "key \<notin> fst ` set its \<Longrightarrow> others key its = its"
  by (induction its) (auto simp: others_def)

lemma mixin_delitem_eq:
  "mixin_delitem h m key =
     (if key \<in> fst ` set (cells h (d_items m))
      then (Inr (), store h (d_items m) (others key (cells h (d_items m))))
      else (Inl KeyError, h))"
  by (simp add: mixin_delitem_def del_loop_all others_none store_same)

lemma dunder_delitem_eq:
  assumes "mutable (cls m)"
  shows "dunder_delitem h m k =
     (if lookup_key (cls m) k \<in> fst ` set (cells h (d_items m))
      then (Inr (), store h (d_items m) (others (lookup_key (cls m) k) (cells h (d_items m))))
      else (Inl KeyError, h))"
  using assms
  by (cases "cls m") (simp_all add: dunder_delitem_def mixin_delitem_eq lookup_key_def)

lemma mixin_setitem_eq:
  assumes "mutable (cls m)" and "lookup_key (cls m) K = K"
  shows "mixin_setitem h m K v =
     (Inr (), store h (d_items m) (others K (cells h (d_items m)) @ [(K, v)]))"
  using assms dunder_delitem_eq [OF assms(1), of h K]
  by (simp add: mixin_setitem_def append_item_def store_store cells_store others_none)

lemma getall_after_setitem: "base_getall (others K xs @ [(K, v)]) K None = Inr (Inl [v])"
  by (simp add: base_getall_def others_def Let_def)

lemma others_after_setitem: "others K (others K xs @ [(K, v)]) = others K xs"
  by (simp add: others_def)

lemma eq_loop_all: "eq_loop ps g = list_all (\<lambda>p. g (fst p) = Some (snd p)) ps"
  by (induction ps) auto

subsection \<open>The folding entry points keep the stored keys upper-case\<close>

lemma all_upper_append: "all_upper (xs @ ys) = (all_upper xs \<and> all_upper ys)"
  by (simp add: all_upper_def)

lemma all_upper_others: "all_upper xs \<Longrightarrow> all_upper (others k xs)"
  by (simp add: all_upper_def others_def list_all_iff)

lemma all_upper_map: "all_upper (map (\<lambda>p. (upper (fst p), snd p)) ps)"
  by (simp add: all_upper_def list_all_iff upper_idem)

lemma init_folded:
  assumes "folds c" and "init h c args kwargs = (Inr m, h')"
  shows "all_upper (cells h' (d_items m))"
  using assms
  by (auto simp: init_def alloc_def fill_def ci_fill_cells all_upper_map all_upper_append
      split: if_splits sum.splits list.splits posarg.splits)

lemma ci_add_folded:
  assumes "cls m = CaseInsensitiveMutableMultiDict" and "all_upper (cells h (d_items m))"
  shows "all_upper (cells (snd (add h m k v)) (d_items m))"
  using assms
  by (simp add: add_def mixin_add_def append_item_def cells_store all_upper_append)
     (simp add: all_upper_def upper_idem)

lemma ci_delitem_folded:
  assumes "cls m = CaseInsensitiveMutableMultiDict" and "all_upper (cells h (d_items m))"
  shows "all_upper (cells (snd (dunder_delitem h m k)) (d_items m))"
  using assms
  by (simp add: dunder_delitem_eq cells_store all_upper_others)

lemma ci_setitem_folded:
  assumes "cls m = CaseInsensitiveMutableMultiDict" and "all_upper (cells h (d_items m))"
  shows "all_upper (cells (snd (dunder_setitem h m k v)) (d_items m))"
proof -
  have mu: "mutable (cls m)" using assms(1) by simp
  have K: "lookup_key (cls m) (upper k) = upper k"
    using assms(1) by (simp add: lookup_key_def upper_idem)
  have "dunder_setitem h m k v = mixin_setitem h m (upper k) v"
    using assms(1) by (simp add: dunder_setitem_def)
  then show ?thesis
    using assms(2)
    by (simp add: mixin_setitem_eq [OF mu K] cells_store all_upper_append all_upper_others)
       (simp add: all_upper_def upper_idem)
qed

lemma add_d_items_only: "b \<noteq> d_items m \<Longrightarrow> cells (snd (add h m k v)) b = cells h b"
  by (cases "cls m") (simp_all add: add_def mixin_add_def append_item_def cells_store)

lemma ci_extend_loop_folded:
  assumes "cls m = CaseInsensitiveMutableMultiDict"
  shows "all_upper (cells h (d_items m)) \<Longrightarrow>
         all_upper (cells (snd (extend_loop h m ts)) (d_items m))"
proof (induction ts arbitrary: h)
  case Nil
  then show ?case by simp
next
  case (Cons t ts)
  show ?case
  proof (cases "unpack2 t")
    case (Inl e)
    then show ?thesis using Cons.prems by simp
  next
    case (Inr p)
    have a: "add h m (fst p) (snd p) = (Inr (), snd (add h m (fst p) (snd p)))"
      using assms by (simp add: add_def)
    have "all_upper (cells (snd (add h m (fst p) (snd p))) (d_items m))"
      using assms Cons.prems by (rule ci_add_folded)
    from Cons.IH [OF this] show ?thesis
      using Inr a by (simp split: prod.splits sum.splits) (metis a Inl_Inr_False Pair_inject snd_conv)
  qed
qed

lemma ci_extend_folded:
  assumes "cls m = CaseInsensitiveMutableMultiDict" and "all_upper (cells h (d_items m))"
  shows "all_upper (cells (snd (extend h m args kwargs)) (d_items m))"
  using assms by (simp add: extend_def ci_extend_loop_folded)

subsection \<open>A view made with getall=False has a list of its own\<close>

lemma first_only_view_is_private:
  assumes "d_items m < next_addr h"
  shows "v_items (fst (items h m False)) \<noteq> d_items m
       \<and> v_items (fst (keys h m False)) \<noteq> d_items m
       \<and> v_items (fst (values_view h m False)) \<noteq> d_items m"
  using assms
  by (simp add: items_def keys_def values_view_def ViewBase_init_def alloc_def split: prod.splits)

section \<open>The claims\<close>

subsection \<open>Views and later mutation\<close>

text \<open>
  Claim C1: a view created by \<^verbatim>\<open>keys()\<close>, \<^verbatim>\<open>items()\<close> or \<^verbatim>\<open>values()\<close> keeps its
  length, iteration sequence and containment results whatever is done to the map afterwards.
  The code does not do this for \<^verbatim>\<open>getall=True\<close>: the view holds the map's own list
  (\<^verbatim>\<open>items_to_use = items\<close>), and only \<^verbatim>\<open>_keys\<close> is a copy. For the map built from
  \<^verbatim>\<open>[("a", 1)]\<close>, an items view and a keys view taken before \<^verbatim>\<open>add("b", 2)\<close> both have
  length 1 before it and length 2 after it; the items view then iterates both pairs, while the
  keys view still iterates the one key.
\<close>

theorem view_follows_later_add:
  "(case init empty_heap MutableMultiDict [Iterable [Tuple ''a'' [1::nat]]] [] of
      (Inr m, h1) \<Rightarrow>
        (case items h1 m True of (v, h2) \<Rightarrow>
          (case keys h2 m True of (kv, h3) \<Rightarrow>
            (case add h3 m ''b'' 2 of (r, h4) \<Rightarrow>
               view_len h3 v = 1 \<and> ItemsView_iter h3 v = [(''a'', 1)]
             \<and> view_len h4 v = 2 \<and> ItemsView_iter h4 v = [(''a'', 1), (''b'', 2)]
             \<and> view_len h3 kv = 1 \<and> view_len h4 kv = 2 \<and> KeysView_iter kv = [''a''])))
    | (Inl e, h1) \<Rightarrow> False)"
  by (simp add: run_defs)

subsection \<open>Iteration over a map\<close>

text \<open>
  Claim C2, as the code has it: iterating a map yields the key of every stored entry, in
  storage order and with duplicates (it is the keys view with \<^verbatim>\<open>getall=True\<close>), so it
  yields exactly \<^verbatim>\<open>len(m)\<close> keys.
\<close>

theorem iter_yields_every_key:
  "dunder_iter h m = map fst (cells h (d_items m)) \<and> length (dunder_iter h m) = dunder_len h m"
  by (simp add: dunder_iter_def keys_def ViewBase_init_def KeysView_iter_def dunder_len_def)

text \<open>
  Claim C2 as stated (each distinct key once, fewer elements than \<^verbatim>\<open>len(m)\<close> when keys
  repeat) fails for the map built from \<^verbatim>\<open>[("a", 1), ("a", 2)]\<close>.
\<close>

theorem iter_repeats_duplicate_keys:
  "(case init empty_heap MultiDict [Iterable [Tuple ''a'' [1::nat], Tuple ''a'' [2]]] [] of
      (Inr m, h) \<Rightarrow>
         dunder_iter h m = [''a'', ''a''] \<and> \<not> distinct (dunder_iter h m)
       \<and> dunder_len h m = 2 \<and> \<not> length (dunder_iter h m) < dunder_len h m
    | (Inl e, h) \<Rightarrow> False)"
  by (simp add: run_defs)

subsection \<open>Equality\<close>

text \<open>
  Claim C3, as the code has it: against a mapping from outside the family, \<^verbatim>\<open>m == other\<close>
  holds exactly when, for every stored entry \<open>(k, v)\<close> of \<open>m\<close>, duplicates included,
  \<open>other\<close> has an entry for \<open>k\<close> and its value equals \<open>v\<close>. The code asks
  \<^verbatim>\<open>other.get(k, _marker)\<close>, so a key that \<open>other\<close> lacks never matches, whatever \<open>v\<close> is.
\<close>

theorem mapping_equality_compares_every_entry:
  "dunder_eq h m (Mapping g) =
     Result (list_all (\<lambda>p. g (fst p) = Some (snd p)) (cells h (d_items m)))"
  by (simp add: dunder_eq_def items_def ViewBase_init_def ItemsView_iter_def eq_loop_all)

text \<open>
  Claim C3 as stated fails in two ways. Only the first value of each key is said to count:
  for the map built from \<^verbatim>\<open>[("a", 1), ("a", 2)]\<close> and the dict \<^verbatim>\<open>{"a": 1}\<close>, the dict
  holds the first value of every key of the map, and the comparison is false. And
  \<^verbatim>\<open>other.get(k)\<close> is said to decide: for the map built from \<^verbatim>\<open>[("a", None)]\<close> and the
  empty dict, \<^verbatim>\<open>other.get("a")\<close> is \<^verbatim>\<open>None\<close>, the first value of the key, and the
  comparison is false. Python's \<^verbatim>\<open>None\<close> is the value \<open>None\<close> of the values' type here.
\<close>

theorem duplicate_entry_breaks_mapping_equality:
  "(case init empty_heap MultiDict [Iterable [Tuple ''a'' [1::nat], Tuple ''a'' [2]]] [] of
      (Inr m, h) \<Rightarrow>
         dunder_eq h m (Mapping (\<lambda>k. if k = ''a'' then Some 1 else None)) = Result False
       \<and> list_all (\<lambda>k. (if k = ''a'' then Some 1 else None) = first_value (cells h (d_items m)) k)
            (dunder_iter h m)
    | (Inl e, h) \<Rightarrow> False)
   \<and> (case init empty_heap MultiDict [Iterable [Tuple ''a'' [None :: nat option]]] [] of
      (Inr m, h) \<Rightarrow>
         dunder_eq h m (Mapping (\<lambda>k. None)) = Result False
       \<and> list_all (\<lambda>k. Some (dict_get (\<lambda>k. None) k None) = first_value (cells h (d_items m)) k)
            (dunder_iter h m)
    | (Inl e, h) \<Rightarrow> False)"
  by (simp add: run_defs dict_get_def)

text \<open>
  Claim C10: between two maps of the family, of whatever classes, equality is the equality
  of the two stored entry sequences; the entry-by-entry rule with \<^verbatim>\<open>get\<close> is the branch
  for other mappings only.
\<close>

theorem family_equality_compares_storage:
  "dunder_eq h m (Family m') = Result (cells h (d_items m) = cells h (d_items m'))"
  by (simp add: dunder_eq_def)

text \<open>
  A case-insensitive map built from \<^verbatim>\<open>{"Content-Type": 1}\<close> and a plain map built from
  \<^verbatim>\<open>[("CONTENT-TYPE", 1)]\<close> compare equal, in both directions.
\<close>

theorem family_equality_compares_storage_witness:
  "(case init empty_heap CaseInsensitiveMultiDict [WithItems [(''Content-Type'', 1::nat)]] [] of
      (Inr m1, h1) \<Rightarrow>
        (case init h1 MultiDict [Iterable [Tuple ''CONTENT-TYPE'' [1]]] [] of
           (Inr m2, h2) \<Rightarrow>
              dunder_eq h2 m1 (Family m2) = Result True \<and> dunder_eq h2 m2 (Family m1) = Result True
         | (Inl e, h2) \<Rightarrow> False)
    | (Inl e, h1) \<Rightarrow> False)"
  by (simp add: family_equality_compares_storage init_def alloc_def store_def append_item_def
      fill_def empty_heap_def upper_content_type)

subsection \<open>The stored keys of a case-insensitive map\<close>

text \<open>
  Claim C4: every key in the storage of a case-insensitive map is upper-case after any
  public operation, \<^verbatim>\<open>setdefault\<close> with a raw key included. The code does not do this:
  \<^verbatim>\<open>add\<close>, \<^verbatim>\<open>__setitem__\<close> and \<^verbatim>\<open>__delitem__\<close> are overridden to fold the key, and
  \<^verbatim>\<open>setdefault\<close> is not. On an empty case-insensitive mutable map,
  \<^verbatim>\<open>setdefault("foo", 1)\<close> stores the key \<^verbatim>\<open>"foo"\<close> as it is, and \<^verbatim>\<open>getall("foo")\<close>
  then raises KeyError.
\<close>

theorem setdefault_stores_raw_key:
  "(case init empty_heap CaseInsensitiveMutableMultiDict [] [] of
      (Inr m, h1) \<Rightarrow>
        (case setdefault h1 m ''foo'' (1::nat) of (r, h2) \<Rightarrow>
           r = Inr 1 \<and> cells h2 (d_items m) = [(''foo'', 1)] \<and> upper ''foo'' = ''FOO''
           \<and> getall h2 m ''foo'' (None :: unit option) = Inl KeyError)
    | (Inl e, h1) \<Rightarrow> False)"
  by (simp add: run_defs upper_foo getall_def base_getall_def lookup_key_def)

subsection \<open>A failed extend\<close>

text \<open>
  Claim C5: \<^verbatim>\<open>extend\<close> with a sequence holding an item that is not a pair fails and leaves
  the storage as it was. The code does not do this: unlike \<^verbatim>\<open>__init__\<close>, \<^verbatim>\<open>extend\<close>
  does not check the items first, so the pairs before the bad item are added before the
  unpacking of the bad item raises ValueError. On an empty map,
  \<^verbatim>\<open>extend([("a", 1), ("b",)])\<close> raises and leaves \<^verbatim>\<open>("a", 1)\<close> in the storage.
\<close>

theorem extend_keeps_pairs_before_bad_item:
  "(case init empty_heap MutableMultiDict [] [] of
      (Inr m, h1) \<Rightarrow>
        (case extend h1 m [Iterable [Tuple ''a'' [1::nat], Tuple ''b'' []]] [] of (r, h2) \<Rightarrow>
           r = Inl ValueError \<and> cells h1 (d_items m) = [] \<and> cells h2 (d_items m) = [(''a'', 1)])
    | (Inl e, h1) \<Rightarrow> False)"
  by (simp add: run_defs)

subsection \<open>Indexed assignment and deletion\<close>

text \<open>
  Claim C6: on a mutable map, \<^verbatim>\<open>m[k] = v\<close> never fails; it removes every entry of the key
  and appends the one entry \<open>(k, v)\<close> at the end, the other entries keeping their order, and
  afterwards \<^verbatim>\<open>m.getall(k)\<close> is \<open>[v]\<close>. The key is \<open>lookup_key (cls m) k\<close>: \<open>k\<close> itself for
  the plain class, its upper-case form for the case-insensitive one.
\<close>

theorem setitem_replaces_all:
  assumes "mutable (cls m)"
  shows "dunder_setitem h m k v =
      (Inr (), store h (d_items m)
         (filter (\<lambda>p. fst p \<noteq> lookup_key (cls m) k) (cells h (d_items m))
          @ [(lookup_key (cls m) k, v)]))
    \<and> getall (snd (dunder_setitem h m k v)) m k (None :: 'd option) = Inr (Inl [v])
    \<and> filter (\<lambda>p. fst p \<noteq> lookup_key (cls m) k) (cells (snd (dunder_setitem h m k v)) (d_items m))
        = filter (\<lambda>p. fst p \<noteq> lookup_key (cls m) k) (cells h (d_items m))"
proof -
  let ?K = "lookup_key (cls m) k"
  have K: "lookup_key (cls m) ?K = ?K" by (rule lookup_key_idem)
  have 1: "dunder_setitem h m k v = mixin_setitem h m ?K v"
    using assms by (cases "cls m") (simp_all add: dunder_setitem_def lookup_key_def)
  have 2: "filter (\<lambda>p. fst p \<noteq> ?K) xs = others ?K xs" for xs :: "'a entries"
    by (simp add: others_def)
  show ?thesis
    unfolding 1 2 mixin_setitem_eq [OF assms K]
    by (simp add: getall_def cells_store getall_after_setitem others_after_setitem)
qed

text \<open>The map built from \<^verbatim>\<open>[("a", 1), ("b", 2), ("a", 3)]\<close>, then \<^verbatim>\<open>m["a"] = 9\<close>.\<close>

theorem setitem_replaces_all_witness:
  "mutable (cls \<lparr>cls = MutableMultiDict, d_items = 0\<rparr>)
   \<and> fst (dunder_setitem
        \<lparr>cells = (\<lambda>a. [])(0 := [(''a'', 1::nat), (''b'', 2), (''a'', 3)]), next_addr = 1\<rparr>
        \<lparr>cls = MutableMultiDict, d_items = 0\<rparr> ''a'' 9) = Inr ()
   \<and> cells (snd (dunder_setitem
        \<lparr>cells = (\<lambda>a. [])(0 := [(''a'', 1::nat), (''b'', 2), (''a'', 3)]), next_addr = 1\<rparr>
        \<lparr>cls = MutableMultiDict, d_items = 0\<rparr> ''a'' 9)) 0 = [(''b'', 2), (''a'', 9)]"
proof -
  let ?m = "\<lparr>cls = MutableMultiDict, d_items = 0\<rparr>"
  let ?h = "\<lparr>cells = (\<lambda>a. [])(0 := [(''a'', 1::nat), (''b'', 2), (''a'', 3)]), next_addr = 1\<rparr>"
  have m: "mutable (cls ?m)" by simp
  have t: "dunder_setitem ?h ?m ''a'' 9 =
      (Inr (), store ?h (d_items ?m)
         (filter (\<lambda>p. fst p \<noteq> lookup_key (cls ?m) ''a'') (cells ?h (d_items ?m))
          @ [(lookup_key (cls ?m) ''a'', 9)]))"
    using setitem_replaces_all [OF m, of ?h "''a''" 9] by (rule conjunct1)
  show ?thesis
    unfolding t by (simp add: lookup_key_def store_def)
qed

text \<open>
  Claim C7: on a mutable map, \<^verbatim>\<open>del m[k]\<close> removes every entry of the key and keeps the
  others in their order; when no entry has the key it fails with KeyError and the state is
  exactly what it was. The key is \<open>lookup_key (cls m) k\<close>, as for assignment.
\<close>

theorem delitem_removes_all_or_raises:
  assumes "mutable (cls m)"
  shows "dunder_delitem h m k =
     (if lookup_key (cls m) k \<in> fst ` set (cells h (d_items m))
      then (Inr (), store h (d_items m)
              (filter (\<lambda>p. fst p \<noteq> lookup_key (cls m) k) (cells h (d_items m))))
      else (Inl KeyError, h))"
  using dunder_delitem_eq [OF assms, of h k] by (simp add: others_def)

text \<open>On the same map, \<^verbatim>\<open>del m["a"]\<close> leaves \<^verbatim>\<open>[("b", 2)]\<close> and \<^verbatim>\<open>del m["c"]\<close> fails.\<close>

theorem delitem_removes_all_or_raises_witness:
  "mutable (cls \<lparr>cls = MutableMultiDict, d_items = 0\<rparr>)
   \<and> cells (snd (dunder_delitem
        \<lparr>cells = (\<lambda>a. [])(0 := [(''a'', 1::nat), (''b'', 2), (''a'', 3)]), next_addr = 1\<rparr>
        \<lparr>cls = MutableMultiDict, d_items = 0\<rparr> ''a'')) 0 = [(''b'', 2)]
   \<and> dunder_delitem
        \<lparr>cells = (\<lambda>a. [])(0 := [(''a'', 1::nat), (''b'', 2), (''a'', 3)]), next_addr = 1\<rparr>
        \<lparr>cls = MutableMultiDict, d_items = 0\<rparr> ''c''
     = (Inl KeyError,
        \<lparr>cells = (\<lambda>a. [])(0 := [(''a'', 1::nat), (''b'', 2), (''a'', 3)]), next_addr = 1\<rparr>)"
proof -
  let ?m = "\<lparr>cls = MutableMultiDict, d_items = 0\<rparr>"
  let ?h = "\<lparr>cells = (\<lambda>a. [])(0 := [(''a'', 1::nat), (''b'', 2), (''a'', 3)]), next_addr = 1\<rparr>"
  have m: "mutable (cls ?m)" by simp
  note a = delitem_removes_all_or_raises [OF m, of ?h "''a''"]
  note c = delitem_removes_all_or_raises [OF m, of ?h "''c''"]
  show ?thesis
    unfolding a c by (simp add: lookup_key_def store_def)
qed

subsection \<open>Case-insensitive lookup\<close>

text \<open>
  Claim C8, as the code has it: on a case-insensitive map, \<^verbatim>\<open>getall\<close> of a key and of its
  upper-case form give the same result (the same list, the same default, or KeyError), for
  every key; \<^verbatim>\<open>getall\<close> of its lower-case form gives that result too when
  \<^verbatim>\<open>k.lower().upper()\<close> is \<^verbatim>\<open>k.upper()\<close>, which holds for every ASCII key.
\<close>

theorem getall_case_insensitive:
  assumes "folds (cls m)"
  shows "getall h m k d = getall h m (upper k) d
     \<and> (upper (lower k) = upper k \<longrightarrow> getall h m (lower k) d = getall h m k d)
     \<and> (isascii k \<longrightarrow> getall h m (lower k) d = getall h m k d)"
  using assms by (simp add: getall_def lookup_key_def upper_idem upper_lower_ascii)

theorem getall_case_insensitive_witness:
  "folds (cls \<lparr>cls = CaseInsensitiveMultiDict, d_items = 0\<rparr>)
   \<and> isascii ''Content-Type''
   \<and> getall \<lparr>cells = (\<lambda>a. [])(0 := [(''CONTENT-TYPE'', 1::nat)]), next_addr = 1\<rparr>
        \<lparr>cls = CaseInsensitiveMultiDict, d_items = 0\<rparr> ''Content-Type'' (None :: unit option)
     = Inr (Inl [1])
   \<and> getall \<lparr>cells = (\<lambda>a. [])(0 := [(''CONTENT-TYPE'', 1::nat)]), next_addr = 1\<rparr>
        \<lparr>cls = CaseInsensitiveMultiDict, d_items = 0\<rparr> ''CONTENT-TYPE'' (None :: unit option)
     = Inr (Inl [1])
   \<and> getall \<lparr>cells = (\<lambda>a. [])(0 := [(''CONTENT-TYPE'', 1::nat)]), next_addr = 1\<rparr>
        \<lparr>cls = CaseInsensitiveMultiDict, d_items = 0\<rparr> ''content-type'' (None :: unit option)
     = Inr (Inl [1])"
proof -
  let ?m = "\<lparr>cls = CaseInsensitiveMultiDict, d_items = 0\<rparr>"
  let ?h = "\<lparr>cells = (\<lambda>a. [])(0 := [(''CONTENT-TYPE'', 1::nat)]), next_addr = 1\<rparr>"
  have f: "folds (cls ?m)" by simp
  have e: "getall ?h ?m ''Content-Type'' (None :: unit option) = Inr (Inl [1])"
    by (simp add: getall_def base_getall_def lookup_key_def upper_content_type)
  note t = getall_case_insensitive [OF f, of ?h "''Content-Type''" "None :: unit option"]
  have u: "getall ?h ?m ''CONTENT-TYPE'' (None :: unit option) = Inr (Inl [1])"
    using t [THEN conjunct1] e by (simp add: upper_content_type)
  have l: "getall ?h ?m ''content-type'' (None :: unit option) = Inr (Inl [1])"
    using t [THEN conjunct2, THEN conjunct2] isascii_content_type e
    by (simp add: lower_content_type del: lower.simps)
  show ?thesis
    using f isascii_content_type e u l by blast
qed

text \<open>
  Claim C8 as stated (for every key, the lower-case form included) fails for the
  case-insensitive map built from \<^verbatim>\<open>[("\u212a", 1)]\<close>: the key is stored as it is, since
  upper-casing keeps it; \<^verbatim>\<open>getall("\u212a")\<close> is \<open>[1]\<close>; its lower-case form is \<^verbatim>\<open>"k"\<close>,
  whose upper-case form is \<^verbatim>\<open>"K"\<close>, another string, and \<^verbatim>\<open>getall("k")\<close> raises KeyError.
\<close>

theorem getall_lower_kelvin_differs:
  "(case init empty_heap CaseInsensitiveMultiDict [Iterable [Tuple kelvin_sign [1::nat]]] [] of
      (Inr m, h) \<Rightarrow>
         cells h (d_items m) = [(kelvin_sign, 1)]
       \<and> getall h m kelvin_sign (None :: unit option) = Inr (Inl [1])
       \<and> getall h m (upper kelvin_sign) (None :: unit option) = Inr (Inl [1])
       \<and> lower kelvin_sign = ''k''
       \<and> getall h m (lower kelvin_sign) (None :: unit option) = Inl KeyError
    | (Inl e, h) \<Rightarrow> False)"
  by (simp add: run_defs upper_kelvin lower_kelvin upper_k kelvin_not_K getall_def
      base_getall_def lookup_key_def)

subsection \<open>Copy\<close>

text \<open>
  Claim C9: for a map of a plain class, \<^verbatim>\<open>copy()\<close>, which is the constructor of the same
  class applied to \<^verbatim>\<open>m.items()\<close>, succeeds and gives a map of that class that is equal to
  \<open>m\<close> and whose entry list is another list than that of \<open>m\<close>, which is left as it was.
\<close>

theorem copy_equal_and_distinct:
  assumes "\<not> folds (cls m)" and "d_items m < next_addr h"
  shows "\<exists>m' h'. copy h m = (Inr m', h')
     \<and> copy h m = init h (cls m) [Iterable (map to_tuple (ItemsView_iter h (fst (items h m True))))] []
     \<and> cls m' = cls m \<and> d_items m' \<noteq> d_items m
     \<and> cells h' (d_items m') = cells h (d_items m)
     \<and> cells h' (d_items m) = cells h (d_items m)
     \<and> dunder_eq h' m' (Family m) = Result True
     \<and> dunder_eq h' m (Family m') = Result True"
  using assms
  by (simp add: copy_def items_def ViewBase_init_def ItemsView_iter_def init_def alloc_def
      check_len2_to_tuple unpack_all_to_tuple fill_def store_def dunder_eq_def)

theorem copy_equal_and_distinct_witness:
  "\<not> folds (cls \<lparr>cls = MultiDict, d_items = 0\<rparr>)
   \<and> d_items \<lparr>cls = MultiDict, d_items = 0\<rparr>
       < next_addr \<lparr>cells = (\<lambda>a. [])(0 := [(''a'', 1::nat), (''b'', 2), (''a'', 3)]), next_addr = 1\<rparr>
   \<and> (\<exists>m' h'.
         copy \<lparr>cells = (\<lambda>a. [])(0 := [(''a'', 1::nat), (''b'', 2), (''a'', 3)]), next_addr = 1\<rparr>
           \<lparr>cls = MultiDict, d_items = 0\<rparr> = (Inr m', h')
       \<and> d_items m' \<noteq> 0
       \<and> cells h' (d_items m') = [(''a'', 1), (''b'', 2), (''a'', 3)]
       \<and> dunder_eq h' m' (Family \<lparr>cls = MultiDict, d_items = 0\<rparr>) = Result True)"
  using copy_equal_and_distinct [of "\<lparr>cls = MultiDict, d_items = 0\<rparr>"
      "\<lparr>cells = (\<lambda>a. [])(0 := [(''a'', 1::nat), (''b'', 2), (''a'', 3)]), next_addr = 1\<rparr>"]
  by auto

end
